theory Spec2Isabelle
  imports Main "HOL-Library.Word"
begin

section \<open>Data model\<close>

text \<open>
  The Kubernetes API types are kept to the fields that \<^verbatim>\<open>k8s-api-cli.go\<close> reads or
  writes. A Go pointer is an \<open>option\<close> (\<open>None\<close> is \<^verbatim>\<open>nil\<close>), a Go map is a partial
  function wrapped in an \<open>option\<close> (\<open>None\<close> is the nil map, which panics on assignment),
  \<^verbatim>\<open>int32\<close> is a 32-bit word read with \<open>sint\<close>, and a Go string is a list of bytes.
\<close>

datatype Protocol = ProtocolTCP | ProtocolUDP | ProtocolSCTP

record ContainerPort =
  PortName :: string
  PortProtocol :: Protocol
  PortNumber :: "32 word"

record Container =
  ContainerName :: string
  ContainerImage :: string
  Ports :: "ContainerPort list"

type_synonym gomap = "(string \<rightharpoonup> string) option"

text \<open>
  \<^verbatim>\<open>appsv1.Deployment\<close>, flattened: each field is named after its path in the Go struct
  (\<^verbatim>\<open>ObjectMeta.Name\<close>, \<^verbatim>\<open>Spec.Replicas\<close>, \<^verbatim>\<open>Spec.Selector.MatchLabels\<close>,
  \<^verbatim>\<open>Spec.Template.ObjectMeta.Labels\<close>, \<^verbatim>\<open>Spec.Template.Spec.Containers\<close>).
  \<open>Spec_Selector\<close> is the pointer to the label selector, holding its \<^verbatim>\<open>MatchLabels\<close> map.
\<close>

record Deployment =
  ObjectMeta_Name :: string
  ObjectMeta_Namespace :: string
  ObjectMeta_ResourceVersion :: string
  Spec_Replicas :: "32 word option"
  Spec_Selector :: "gomap option"
  Spec_Template_Labels :: gomap
  Spec_Template_Containers :: "Container list"

record DeploymentInfo =
  Image :: string
  Namespace :: string

datatype StatusReason =
  StatusReasonAlreadyExists | StatusReasonNotFound | StatusReasonConflict
  | StatusReasonForbidden | StatusReasonUnknown

text \<open>An error value of the API client: its reason and the text that \<^verbatim>\<open>Error()\<close> returns.\<close>

datatype api_error = StatusError StatusReason string

fun Error :: "api_error \<Rightarrow> string" where
  "Error (StatusError r msg) = msg"

fun IsConflict :: "api_error \<Rightarrow> bool" where
  "IsConflict (StatusError r msg) = (r = StatusReasonConflict)"

fun IsAlreadyExists :: "api_error \<Rightarrow> bool" where
  "IsAlreadyExists (StatusError r msg) = (r = StatusReasonAlreadyExists)"

datatype DeletionPropagation =
  DeletePropagationOrphan | DeletePropagationBackground | DeletePropagationForeground

record DeleteOptions =
  PropagationPolicy :: "DeletionPropagation option"

text \<open>
  What a goroutine can panic with: \<^verbatim>\<open>panic(err)\<close> carrying the error's text, or one of
  the run-time panics of the statements the handlers execute.
\<close>

datatype panic = ErrorPanic string | NilDereference | NilMapAssignment | IndexOutOfRange

subsection \<open>Requests and responses\<close>

record Request =
  PathParameters :: "string \<rightharpoonup> string"
  Body :: string

text \<open>\<^verbatim>\<open>req.PathParameter(name)\<close>: the empty string when the parameter is absent.\<close>

definition PathParameter :: "Request \<Rightarrow> string \<Rightarrow> string" where
  "PathParameter req name = (case PathParameters req name of None \<Rightarrow> [] | Some v \<Rightarrow> v)"

text \<open>
  The response writer: the status code is fixed by the first write (\<open>None\<close> until
  then), and every write appends to the body.
\<close>

record Response =
  StatusCode :: "nat option"
  ResponseBody :: string

definition NewResponse :: Response where
  "NewResponse = \<lparr>StatusCode = None, ResponseBody = []\<rparr>"

definition WriteHeader :: "nat \<Rightarrow> Response \<Rightarrow> Response" where
  "WriteHeader code resp =
     (case StatusCode resp of None \<Rightarrow> resp\<lparr>StatusCode := Some code\<rparr> | Some c \<Rightarrow> resp)"

text \<open>\<^verbatim>\<open>io.WriteString(resp, s)\<close>: an implicit status 200 on the first write.\<close>

definition WriteString :: "string \<Rightarrow> Response \<Rightarrow> Response" where
  "WriteString s resp =
     (let r = WriteHeader 200 resp in r\<lparr>ResponseBody := ResponseBody r @ s\<rparr>)"

text \<open>\<^verbatim>\<open>resp.WriteError(status, err)\<close>: writes the status, then the error's text.\<close>

definition WriteError :: "nat \<Rightarrow> api_error \<Rightarrow> Response \<Rightarrow> Response" where
  "WriteError code err resp =
     (let r = WriteHeader code resp in r\<lparr>ResponseBody := ResponseBody r @ Error err\<rparr>)"

datatype outcome = Returned Response | Panicked panic

subsection \<open>The resource store\<close>

text \<open>
  The cluster is an external collaborator. Each call of the client is recorded, and the
  store answers a call as a function of the calls made before it and of the call's
  arguments: any sequence of answers that a store shared with other writers can give
  is the behaviour of some such function.
\<close>

datatype api_call =
  CallNamespacesCreate string
  | CallDeploymentsCreate string Deployment
  | CallDeploymentsGet string string
  | CallDeploymentsUpdate string Deployment
  | CallDeploymentsList string
  | CallDeploymentsDelete string string DeleteOptions

text \<open>
  \<open>Steps\<close> is the attempt count of \<^verbatim>\<open>retry.DefaultRetry\<close>. \<open>ReadEntity\<close> is the
  request's entity reader: what \<^verbatim>\<open>deploy\<close> points to after
  \<^verbatim>\<open>req.ReadEntity(&deploy)\<close> (the reader is handed the address of the pointer, so it
  may also leave \<^verbatim>\<open>nil\<close> there), and the error it returns.
\<close>

record env =
  Steps :: nat
  ReadEntity :: "Request \<Rightarrow> DeploymentInfo option \<times> string option"
  NamespacesCreate :: "api_call list \<Rightarrow> string \<Rightarrow> api_error option"
  DeploymentsCreate :: "api_call list \<Rightarrow> string \<Rightarrow> Deployment \<Rightarrow> api_error + Deployment"
  DeploymentsGet :: "api_call list \<Rightarrow> string \<Rightarrow> string \<Rightarrow> api_error + Deployment"
  DeploymentsUpdate :: "api_call list \<Rightarrow> string \<Rightarrow> Deployment \<Rightarrow> api_error + Deployment"
  DeploymentsList :: "api_call list \<Rightarrow> string \<Rightarrow> api_error + Deployment list"
  DeploymentsDelete :: "api_call list \<Rightarrow> string \<Rightarrow> string \<Rightarrow> DeleteOptions \<Rightarrow> api_error option"

text \<open>
  The process state between requests: the package-level variable \<^verbatim>\<open>deployment\<close> (set
  by \<^verbatim>\<open>CreateDeploymentStruct\<close> in \<^verbatim>\<open>main\<close> before the service starts, so never nil
  when a handler runs) and the calls made to the store so far (oldest first).
\<close>

record world =
  deployment :: Deployment
  calls :: "api_call list"

definition record_call :: "api_call \<Rightarrow> world \<Rightarrow> world" where
  "record_call c w = w\<lparr>calls := calls w @ [c]\<rparr>"

section \<open>Name derivation\<close>

text \<open>Membership in the character class \<^verbatim>\<open>[a-zA-Z0-9]\<close>, by byte value.\<close>

definition isAlnum :: "char \<Rightarrow> bool" where
  "isAlnum c =
     (let n = (of_char c :: nat)
      in (97 \<le> n \<and> n \<le> 122) \<or> (65 \<le> n \<and> n \<le> 90) \<or> (48 \<le> n \<and> n \<le> 57))"

text \<open>
  \<^verbatim>\<open>regexp.ReplaceAllString\<close> for a pattern \<^verbatim>\<open>[...]+\<close>: scanning from the left, every
  maximal run of characters of the class \<open>P\<close> is one match and is replaced by \<open>repl\<close>;
  the other characters are copied. (A byte above 127 is never in \<^verbatim>\<open>[a-zA-Z0-9]\<close>, so a
  multi-byte rune falls in the negated class with all its bytes.)
\<close>

function ReplaceAllRuns :: "(char \<Rightarrow> bool) \<Rightarrow> string \<Rightarrow> string \<Rightarrow> string" where
  "ReplaceAllRuns P repl [] = []"
| "ReplaceAllRuns P repl (c # cs) =
     (if P c then repl @ ReplaceAllRuns P repl (dropWhile P cs)
      else c # ReplaceAllRuns P repl cs)"
  by pat_completeness auto
termination
  by (relation "measure (\<lambda>(P, repl, s). length s)")
     (auto simp: length_dropWhile_le le_imp_less_Suc)

definition RemoveNonAlphanumericChars :: "string \<Rightarrow> string" where
  "RemoveNonAlphanumericChars value' = ReplaceAllRuns (\<lambda>c. \<not> isAlnum c) [] value'"

text \<open>
  The derivation in the specification's words: strip every character outside
  \<^verbatim>\<open>[a-zA-Z0-9]\<close>.
\<close>

definition strip_non_alphanumeric :: "string \<Rightarrow> string" where
  "strip_non_alphanumeric s = filter isAlnum s"

section \<open>The deployment template\<close>

definition int32Ptr :: "32 word \<Rightarrow> 32 word option" where
  "int32Ptr i = Some i"

text \<open>The value that \<^verbatim>\<open>CreateDeploymentStruct\<close> stores in \<^verbatim>\<open>deployment\<close> at start-up.\<close>

definition CreateDeploymentStruct :: Deployment where
  "CreateDeploymentStruct =
     \<lparr>ObjectMeta_Name = ''demo-deployment'',
      ObjectMeta_Namespace = [],
      ObjectMeta_ResourceVersion = [],
      Spec_Replicas = int32Ptr 2,
      Spec_Selector = Some (Some [''app'' \<mapsto> ''demo'']),
      Spec_Template_Labels = Some [''app'' \<mapsto> ''demo''],
      Spec_Template_Containers =
        [\<lparr>ContainerName = ''web'',
          ContainerImage = ''nginx:1.12'',
          Ports = [\<lparr>PortName = ''http'', PortProtocol = ProtocolTCP, PortNumber = 80\<rparr>]\<rparr>]\<rparr>"

section \<open>Create\<close>

definition CreateNamespace :: "env \<Rightarrow> DeploymentInfo \<Rightarrow> world \<Rightarrow> api_error option \<times> world" where
  "CreateNamespace e deploy w =
     (NamespacesCreate e (calls w) (Namespace deploy),
      record_call (CallNamespacesCreate (Namespace deploy)) w)"

text \<open>
  The assignments of \<^verbatim>\<open>CreateDeployment\<close> to the shared template, in the source's order.
  A statement that panics leaves the assignments before it in place.
\<close>

definition fill_template :: "DeploymentInfo \<Rightarrow> Deployment \<Rightarrow> panic option \<times> Deployment" where
  "fill_template deploy d =
     (let appName = RemoveNonAlphanumericChars (Image deploy);
          d1 = d\<lparr>ObjectMeta_Name := appName\<rparr>
      in case Spec_Selector d1 of
           None \<Rightarrow> (Some NilDereference, d1)
         | Some None \<Rightarrow> (Some NilMapAssignment, d1)
         | Some (Some matchLabels) \<Rightarrow>
             (let d2 = d1\<lparr>Spec_Selector := Some (Some (matchLabels(''app'' \<mapsto> appName)))\<rparr>;
                  d3 = d2\<lparr>ObjectMeta_Namespace := Namespace deploy\<rparr>
              in case Spec_Template_Labels d3 of
                   None \<Rightarrow> (Some NilMapAssignment, d3)
                 | Some labels \<Rightarrow>
                     (let d4 = d3\<lparr>Spec_Template_Labels := Some (labels(''app'' \<mapsto> appName))\<rparr>
                      in case Spec_Template_Containers d4 of
                           [] \<Rightarrow> (Some IndexOutOfRange, d4)
                         | c # cs \<Rightarrow>
                             (None,
                              d4\<lparr>Spec_Template_Containers :=
                                   c\<lparr>ContainerImage := Image deploy\<rparr> # cs\<rparr>))))"

text \<open>
  \<^verbatim>\<open>CreateDeployment\<close>. The error of \<^verbatim>\<open>ReadEntity\<close> is dropped, and the error of
  \<^verbatim>\<open>CreateNamespace\<close> is overwritten by the result of the deployment-create call before
  anything reads it.
\<close>

definition CreateDeployment :: "env \<Rightarrow> Request \<Rightarrow> world \<Rightarrow> outcome \<times> world" where
  "CreateDeployment e req w =
     (case fst (ReadEntity e req) of
        None \<Rightarrow> (Panicked NilDereference, w)
      | Some deploy \<Rightarrow>
          (case fill_template deploy (deployment w) of
             (Some p, d) \<Rightarrow> (Panicked p, w\<lparr>deployment := d\<rparr>)
           | (None, d) \<Rightarrow>
               (let (err, w1) = CreateNamespace e deploy (w\<lparr>deployment := d\<rparr>);
                    w2 = record_call (CallDeploymentsCreate (Namespace deploy) d) w1
                in case DeploymentsCreate e (calls w1) (Namespace deploy) d of
                     Inl err \<Rightarrow> (Panicked (ErrorPanic (Error err)), w2)
                   | Inr result \<Rightarrow>
                       (Returned (WriteString (''Created deployment '' @ ObjectMeta_Name result)
                                    NewResponse), w2))))"

section \<open>Update\<close>

text \<open>The two assignments to the fetched deployment inside the retried closure.\<close>

definition mutate :: "Deployment \<Rightarrow> panic + Deployment" where
  "mutate result =
     (let r1 = result\<lparr>Spec_Replicas := int32Ptr 1\<rparr>
      in case Spec_Template_Containers r1 of
           [] \<Rightarrow> Inl IndexOutOfRange
         | c # cs \<Rightarrow>
             Inr (r1\<lparr>Spec_Template_Containers := c\<lparr>ContainerImage := ''nginx:1.13''\<rparr> # cs\<rparr>))"

text \<open>
  The closure handed to \<^verbatim>\<open>retry.RetryOnConflict\<close>: it panics or returns the error of the
  update call (\<open>None\<close> is \<^verbatim>\<open>nil\<close>).
\<close>

definition update_attempt ::
  "env \<Rightarrow> string \<Rightarrow> string \<Rightarrow> world \<Rightarrow> (panic + api_error option) \<times> world" where
  "update_attempt e namespace deploymentName w =
     (let w1 = record_call (CallDeploymentsGet namespace deploymentName) w
      in case DeploymentsGet e (calls w) namespace deploymentName of
           Inl getErr \<Rightarrow>
             (Inl (ErrorPanic (''Failed to get latest version of Deployment: '' @ Error getErr)),
              w1)
         | Inr result \<Rightarrow>
             (case mutate result of
                Inl p \<Rightarrow> (Inl p, w1)
              | Inr result' \<Rightarrow>
                  (case DeploymentsUpdate e (calls w1) namespace result' of
                     Inl updateErr \<Rightarrow> Inr (Some updateErr)
                   | Inr updated \<Rightarrow> Inr None,
                   record_call (CallDeploymentsUpdate namespace result') w1)))"

text \<open>
  Modelled from the spec: \<^verbatim>\<open>retry.RetryOnConflict\<close> of the Kubernetes client library,
  which is not part of this repository's source. Following section 4.3 of the
  specification: run the closure; on success stop; on a version conflict run it again,
  for at most a fixed number of attempts; any other error stops the loop and is
  returned; when the attempts are used up the last conflict error is returned. The
  waiting between attempts is not modelled. The number of attempts is the parameter
  \<open>n\<close>, and \<open>lastConflictErr\<close> is the conflict error of the latest attempt.
\<close>

fun RetryOnConflict ::
  "nat \<Rightarrow> ('s \<Rightarrow> (panic + api_error option) \<times> 's) \<Rightarrow> api_error option \<Rightarrow> 's
     \<Rightarrow> (panic + api_error option) \<times> 's" where
  "RetryOnConflict 0 fn lastConflictErr s = (Inr lastConflictErr, s)"
| "RetryOnConflict (Suc n) fn lastConflictErr s =
     (case fn s of
        (Inl p, s') \<Rightarrow> (Inl p, s')
      | (Inr None, s') \<Rightarrow> (Inr None, s')
      | (Inr (Some err), s') \<Rightarrow>
          (if IsConflict err then RetryOnConflict n fn (Some err) s'
           else (Inr (Some err), s')))"

definition UpdateDeployment :: "env \<Rightarrow> Request \<Rightarrow> world \<Rightarrow> outcome \<times> world" where
  "UpdateDeployment e req w =
     (let namespace = PathParameter req ''namespace-name'';
          deploymentName = PathParameter req ''deployment-name''
      in case RetryOnConflict (Steps e) (update_attempt e namespace deploymentName) None w of
           (Inl p, w') \<Rightarrow> (Panicked p, w')
         | (Inr (Some retryErr), w') \<Rightarrow>
             (Panicked (ErrorPanic (''Update failed: '' @ Error retryErr)), w')
         | (Inr None, w') \<Rightarrow>
             (Returned (WriteString ''Updated deployment...'' NewResponse), w'))"

section \<open>List\<close>

text \<open>\<^verbatim>\<open>strconv.FormatInt(i, 10)\<close>: decimal digits, with a minus sign for a negative number.\<close>

definition digit_char :: "nat \<Rightarrow> char" where
  "digit_char d = ''0123456789'' ! d"

fun FormatUint :: "nat \<Rightarrow> string" where
  "FormatUint n = (if n < 10 then [digit_char n] else FormatUint (n div 10) @ [digit_char (n mod 10)])"

declare FormatUint.simps [simp del]

definition FormatInt :: "int \<Rightarrow> string" where
  "FormatInt i = (if i < 0 then CHR ''-'' # FormatUint (nat (- i)) else FormatUint (nat i))"

text \<open>
  The loop over \<^verbatim>\<open>list.Items\<close>: each item appends its line to the buffer;
  \<^verbatim>\<open>*d.Spec.Replicas\<close> panics on a nil pointer.
\<close>

fun write_items :: "Deployment list \<Rightarrow> string \<Rightarrow> panic + string" where
  "write_items [] buffer = Inr buffer"
| "write_items (d # ds) buffer =
     (case Spec_Replicas d of
        None \<Rightarrow> Inl NilDereference
      | Some replicas \<Rightarrow>
          write_items ds
            (buffer @ ObjectMeta_Name d @ '' '' @ FormatInt (sint replicas) @ [CHR 0x0A]))"

definition ListDeployment :: "env \<Rightarrow> Request \<Rightarrow> world \<Rightarrow> outcome \<times> world" where
  "ListDeployment e req w =
     (let namespace = PathParameter req ''namespace-name'';
          w1 = record_call (CallDeploymentsList namespace) w
      in case DeploymentsList e (calls w) namespace of
           Inl err \<Rightarrow> (Panicked (ErrorPanic (Error err)), w1)
         | Inr items \<Rightarrow>
             (case write_items items [] of
                Inl p \<Rightarrow> (Panicked p, w1)
              | Inr buffer \<Rightarrow> (Returned (WriteString buffer NewResponse), w1)))"

section \<open>Delete\<close>

text \<open>
  \<^verbatim>\<open>DeleteDeployment\<close>: there is no \<^verbatim>\<open>return\<close> in the error branch, so the final write
  runs after \<^verbatim>\<open>WriteError\<close> as well.
\<close>

definition DeleteDeployment :: "env \<Rightarrow> Request \<Rightarrow> world \<Rightarrow> outcome \<times> world" where
  "DeleteDeployment e req w =
     (let namespace = PathParameter req ''namespace-name'';
          deploymentName = PathParameter req ''deployment-name'';
          deletePolicy = DeletePropagationForeground;
          opts = \<lparr>PropagationPolicy = Some deletePolicy\<rparr>;
          w1 = record_call (CallDeploymentsDelete namespace deploymentName opts) w;
          resp1 = (case DeploymentsDelete e (calls w) namespace deploymentName opts of
                     Some err \<Rightarrow> WriteError 500 err NewResponse
                   | None \<Rightarrow> NewResponse)
      in (Returned (WriteString ''Deleted deployment.'' resp1), w1))"

section \<open>The web service\<close>

text \<open>
  The four routes of \<^verbatim>\<open>CreateWebService\<close>, and the process serving a sequence of
  requests one after the other, from the state that \<^verbatim>\<open>main\<close> sets up. (Requests that
  overlap in time are outside this model.)
\<close>

datatype route = GET_namespace | POST_deployment | PATCH_deployment | DELETE_deployment

fun dispatch :: "env \<Rightarrow> route \<times> Request \<Rightarrow> world \<Rightarrow> outcome \<times> world" where
  "dispatch e (GET_namespace, req) w = ListDeployment e req w"
| "dispatch e (POST_deployment, req) w = CreateDeployment e req w"
| "dispatch e (PATCH_deployment, req) w = UpdateDeployment e req w"
| "dispatch e (DELETE_deployment, req) w = DeleteDeployment e req w"

definition initial_world :: world where
  "initial_world = \<lparr>deployment = CreateDeploymentStruct, calls = []\<rparr>"

definition serve :: "env \<Rightarrow> (route \<times> Request) list \<Rightarrow> world" where
  "serve e reqs = foldl (\<lambda>w r. snd (dispatch e r w)) initial_world reqs"

section \<open>Reading the call record\<close>

fun is_update :: "api_call \<Rightarrow> bool" where
  "is_update (CallDeploymentsUpdate ns d) = True"
| "is_update c = False"

text \<open>How many update submissions a call record holds.\<close>

definition updates_in :: "api_call list \<Rightarrow> nat" where
  "updates_in h = length (filter is_update h)"

text \<open>
  \<open>cycles ns name cs = Some n\<close> when \<open>cs\<close> is exactly \<open>n\<close> fetch/submit cycles on the
  deployment \<open>name\<close> of namespace \<open>ns\<close>: a get followed by an update, \<open>n\<close> times.
\<close>

fun cycles :: "string \<Rightarrow> string \<Rightarrow> api_call list \<Rightarrow> nat option" where
  "cycles ns name [] = Some 0"
| "cycles ns name (CallDeploymentsGet ns1 name1 # CallDeploymentsUpdate ns2 d # cs) =
     (if ns1 = ns \<and> name1 = name \<and> ns2 = ns then map_option Suc (cycles ns name cs) else None)"
| "cycles ns name cs = None"

text \<open>The template of the create path for a given name, namespace and image.\<close>

definition template :: "string \<Rightarrow> string \<Rightarrow> string \<Rightarrow> string \<Rightarrow> Deployment" where
  "template name label ns img =
     \<lparr>ObjectMeta_Name = name,
      ObjectMeta_Namespace = ns,
      ObjectMeta_ResourceVersion = [],
      Spec_Replicas = Some 2,
      Spec_Selector = Some (Some [''app'' \<mapsto> label]),
      Spec_Template_Labels = Some [''app'' \<mapsto> label],
      Spec_Template_Containers =
        [\<lparr>ContainerName = ''web'',
          ContainerImage = img,
          Ports = [\<lparr>PortName = ''http'', PortProtocol = ProtocolTCP, PortNumber = 80\<rparr>]\<rparr>]\<rparr>"

text \<open>One line of the list output.\<close>

definition list_line :: "Deployment \<Rightarrow> string" where
  "list_line d =
     (case Spec_Replicas d of
        None \<Rightarrow> []
      | Some r \<Rightarrow> ObjectMeta_Name d @ '' '' @ FormatInt (sint r) @ [CHR 0x0A])"

section \<open>A simulated store\<close>

text \<open>
  A store for concrete runs: it holds one deployment, answers every call with success,
  and rejects an update with a version conflict when \<open>rejects\<close> holds of the number
  of updates submitted before it.
\<close>

definition stored_deployment :: Deployment where
  "stored_deployment =
     (template ''nginx112'' ''nginx112'' ''demo'' ''nginx:1.12'')
       \<lparr>ObjectMeta_ResourceVersion := ''41''\<rparr>"

definition conflict_error :: api_error where
  "conflict_error = StatusError StatusReasonConflict ''the object has been modified''"

definition sim_store :: "(nat \<Rightarrow> bool) \<Rightarrow> env" where
  "sim_store rejects =
     \<lparr>Steps = 5,
      ReadEntity = (\<lambda>req. (Some \<lparr>Image = ''nginx:1.12'', Namespace = ''demo''\<rparr>, None)),
      NamespacesCreate = (\<lambda>h ns. None),
      DeploymentsCreate = (\<lambda>h ns d. Inr d),
      DeploymentsGet = (\<lambda>h ns nm. Inr stored_deployment),
      DeploymentsUpdate =
        (\<lambda>h ns d. if rejects (updates_in h) then Inl conflict_error else Inr d),
      DeploymentsList = (\<lambda>h ns. Inr [stored_deployment]),
      DeploymentsDelete = (\<lambda>h ns nm opts. None)\<rparr>"

definition demo_request :: Request where
  "demo_request =
     \<lparr>PathParameters = [''namespace-name'' \<mapsto> ''demo'', ''deployment-name'' \<mapsto> ''nginx112''],
      Body = []\<rparr>"

text \<open>Errors for concrete runs, and the stored deployment after the update's mutation.\<close>

definition already_exists_error :: api_error where
  "already_exists_error = StatusError StatusReasonAlreadyExists ''namespaces demo already exists''"

definition not_found_error :: api_error where
  "not_found_error = StatusError StatusReasonNotFound ''deployments.apps nginx112 not found''"

definition updated_deployment :: Deployment where
  "updated_deployment =
     stored_deployment
       \<lparr>Spec_Replicas := Some 1,
        Spec_Template_Containers :=
          [\<lparr>ContainerName = ''web'', ContainerImage = ''nginx:1.13'',
            Ports = [\<lparr>PortName = ''http'', PortProtocol = ProtocolTCP, PortNumber = 80\<rparr>]\<rparr>]\<rparr>"

text \<open>
  Runs of the create path with a failing entity reader: \<open>strict_store read\<close> answers
  every \<^verbatim>\<open>ReadEntity\<close> with \<open>read\<close> and refuses a deployment-create in the empty
  namespace. The two requests carry a body with a number where the namespace string
  belongs, and a body that stops after the opening brace.
\<close>

definition empty_namespace_error :: api_error where
  "empty_namespace_error =
     StatusError StatusReasonUnknown ''an empty namespace may not be set during creation''"

definition strict_store :: "DeploymentInfo option \<times> string option \<Rightarrow> env" where
  "strict_store read =
     (sim_store (\<lambda>u. False))
       \<lparr>ReadEntity := (\<lambda>req. read),
        DeploymentsCreate :=
          (\<lambda>h ns d. if ns = [] then Inl empty_namespace_error else Inr d)\<rparr>"

definition type_error_request :: Request where
  "type_error_request =
     (let q = [CHR 0x22]
      in \<lparr>PathParameters = Map.empty,
          Body = concat [''{'', q, ''image'', q, '':'', q, ''nginx:1.12'', q, '','',
                         q, ''namespace'', q, '':5}'']\<rparr>)"

definition syntax_error_request :: Request where
  "syntax_error_request = \<lparr>PathParameters = Map.empty, Body = ''{''\<rparr>"

section \<open>Theorems\<close>

lemma ReplaceAllRuns_empty_filter:
  "ReplaceAllRuns P [] s = filter (\<lambda>c. \<not> P c) s"
proof (induction P "[] :: string" s rule: ReplaceAllRuns.induct)
  case (1 P)
  show ?case by simp
next
  case (2 P c cs)
  show ?case
  proof (cases "P c")
    case True
    have "filter (\<lambda>c. \<not> P c) (takeWhile P cs) = []"
      by (simp add: filter_empty_conv) (meson set_takeWhileD)
    then have "filter (\<lambda>c. \<not> P c) cs = filter (\<lambda>c. \<not> P c) (dropWhile P cs)"
      by (metis append_Nil filter_append takeWhile_dropWhile_id)
    with True 2 show ?thesis by simp
  next
    case False
    with 2 show ?thesis by simp
  qed
qed

lemma RemoveNonAlphanumericChars_filter:
  "RemoveNonAlphanumericChars s = filter isAlnum s"
  by (simp add: RemoveNonAlphanumericChars_def ReplaceAllRuns_empty_filter)

subsection \<open>Name derivation\<close>

lemma fill_template_name:
  "ObjectMeta_Name (snd (fill_template deploy d)) = RemoveNonAlphanumericChars (Image deploy)"
  by (simp add: fill_template_def Let_def split: option.splits list.splits)

text \<open>
  Claim C3. For every image string \<open>s\<close> (the non-empty ones included) the derived
  resource name is \<open>s\<close> with every character outside \<^verbatim>\<open>[a-zA-Z0-9]\<close> stripped, it
  contains only characters of \<^verbatim>\<open>[a-zA-Z0-9]\<close>, and the derivation is deterministic:
  two create requests with the same image give the template the same name, whatever
  their namespaces and whatever the template held before.
\<close>

theorem RemoveNonAlphanumericChars_strips:
  "RemoveNonAlphanumericChars s = strip_non_alphanumeric s
   \<and> (\<forall>c \<in> set (RemoveNonAlphanumericChars s). isAlnum c)
   \<and> ObjectMeta_Name (snd (fill_template \<lparr>Image = s, Namespace = n1\<rparr> d1))
       = ObjectMeta_Name (snd (fill_template \<lparr>Image = s, Namespace = n2\<rparr> d2))"
  by (simp add: RemoveNonAlphanumericChars_filter strip_non_alphanumeric_def fill_template_name)

theorem RemoveNonAlphanumericChars_strips_witness:
  "RemoveNonAlphanumericChars ''nginx:1.12'' = ''nginx112''
   \<and> list_all isAlnum (RemoveNonAlphanumericChars ''nginx:1.12'')"
  using RemoveNonAlphanumericChars_strips [of "''nginx:1.12''"]
  by (simp add: strip_non_alphanumeric_def isAlnum_def)

subsection \<open>The conflict-retry loop\<close>

lemma mutate_nonempty:
  "Spec_Template_Containers d \<noteq> [] \<Longrightarrow> \<exists>d'. mutate d = Inr d'"
  by (cases "Spec_Template_Containers d") (simp_all add: mutate_def Let_def int32Ptr_def)

lemma updates_in_append [simp]: "updates_in (h @ h') = updates_in h + updates_in h'"
  by (simp add: updates_in_def)

lemma updates_in_get [simp]: "updates_in [CallDeploymentsGet ns nm] = 0"
  by (simp add: updates_in_def)

lemma updates_in_update [simp]: "updates_in [CallDeploymentsUpdate ns d] = 1"
  by (simp add: updates_in_def)

text \<open>One attempt whose fetch succeeds: a get, then an update, and the update's verdict.\<close>

lemma update_attempt_fetched:
  assumes "DeploymentsGet e (calls w) ns nm = Inr d" and "mutate d = Inr d'"
  shows "update_attempt e ns nm w =
           (case DeploymentsUpdate e (calls w @ [CallDeploymentsGet ns nm]) ns d' of
              Inl updateErr \<Rightarrow> Inr (Some updateErr) | Inr updated \<Rightarrow> Inr None,
            w\<lparr>calls := calls w @ [CallDeploymentsGet ns nm, CallDeploymentsUpdate ns d']\<rparr>)"
  using assms by (simp add: update_attempt_def record_call_def Let_def)

lemma retry_converges:
  assumes fetch: "\<And>h. \<exists>d. DeploymentsGet e h ns nm = Inr d \<and> Spec_Template_Containers d \<noteq> []"
  shows "(\<And>h d. updates_in h < updates_in (calls w) + k
             \<Longrightarrow> \<exists>err. DeploymentsUpdate e h ns d = Inl err \<and> IsConflict err)
     \<Longrightarrow> (\<And>h d. updates_in h = updates_in (calls w) + k
             \<Longrightarrow> \<exists>r. DeploymentsUpdate e h ns d = Inr r)
     \<Longrightarrow> \<exists>cs. RetryOnConflict (Suc (k + m)) (update_attempt e ns nm) lastErr w
                 = (Inr None, w\<lparr>calls := calls w @ cs\<rparr>)
              \<and> cycles ns nm cs = Some (Suc k)"
proof (induction k arbitrary: w lastErr)
  case 0
  obtain d d' where d: "DeploymentsGet e (calls w) ns nm = Inr d" "mutate d = Inr d'"
    using fetch mutate_nonempty by blast
  obtain r where "DeploymentsUpdate e (calls w @ [CallDeploymentsGet ns nm]) ns d' = Inr r"
    using "0.prems"(2) [of "calls w @ [CallDeploymentsGet ns nm]" d'] by auto
  then have "RetryOnConflict (Suc (0 + m)) (update_attempt e ns nm) lastErr w
      = (Inr None, w\<lparr>calls := calls w @ [CallDeploymentsGet ns nm, CallDeploymentsUpdate ns d']\<rparr>)"
    by (simp add: update_attempt_fetched [OF d])
  then show ?case by (intro exI [of _ "[CallDeploymentsGet ns nm, CallDeploymentsUpdate ns d']"]) simp
next
  case (Suc k)
  obtain d d' where d: "DeploymentsGet e (calls w) ns nm = Inr d" "mutate d = Inr d'"
    using fetch mutate_nonempty by blast
  let ?new = "[CallDeploymentsGet ns nm, CallDeploymentsUpdate ns d']"
  let ?w1 = "w\<lparr>calls := calls w @ ?new\<rparr>"
  obtain err where err: "DeploymentsUpdate e (calls w @ [CallDeploymentsGet ns nm]) ns d' = Inl err"
      "IsConflict err"
    using Suc.prems(1) [of "calls w @ [CallDeploymentsGet ns nm]" d'] by auto
  have step: "RetryOnConflict (Suc (Suc k + m)) (update_attempt e ns nm) lastErr w
      = RetryOnConflict (Suc (k + m)) (update_attempt e ns nm) (Some err) ?w1"
    using err by (simp add: update_attempt_fetched [OF d])
  have u1: "updates_in (calls ?w1) = Suc (updates_in (calls w))"
    by (simp add: updates_in_def)
  have "\<exists>cs. RetryOnConflict (Suc (k + m)) (update_attempt e ns nm) (Some err) ?w1
                 = (Inr None, ?w1\<lparr>calls := calls ?w1 @ cs\<rparr>)
              \<and> cycles ns nm cs = Some (Suc k)"
  proof (rule Suc.IH)
    fix h d assume "updates_in h < updates_in (calls ?w1) + k"
    then show "\<exists>err. DeploymentsUpdate e h ns d = Inl err \<and> IsConflict err"
      using Suc.prems(1) [of h d] u1 by simp
  next
    fix h d assume "updates_in h = updates_in (calls ?w1) + k"
    then show "\<exists>r. DeploymentsUpdate e h ns d = Inr r"
      using Suc.prems(2) [of h d] u1 by simp
  qed
  then obtain cs where cs: "RetryOnConflict (Suc (k + m)) (update_attempt e ns nm) (Some err) ?w1
                 = (Inr None, ?w1\<lparr>calls := calls ?w1 @ cs\<rparr>)" "cycles ns nm cs = Some (Suc k)"
    by blast
  show ?case
    unfolding step by (intro exI [of _ "?new @ cs"]) (simp add: cs del: RetryOnConflict.simps)
qed

lemma retry_exhausts:
  assumes fetch: "\<And>h. \<exists>d. DeploymentsGet e h ns nm = Inr d \<and> Spec_Template_Containers d \<noteq> []"
    and reject: "\<And>h d. \<exists>err. DeploymentsUpdate e h ns d = Inl err \<and> IsConflict err"
  shows "0 < n \<or> (\<exists>l. lastErr = Some l \<and> IsConflict l)
     \<Longrightarrow> \<exists>err cs. RetryOnConflict n (update_attempt e ns nm) lastErr w
                 = (Inr (Some err), w\<lparr>calls := calls w @ cs\<rparr>)
              \<and> IsConflict err \<and> cycles ns nm cs = Some n"
proof (induction n arbitrary: w lastErr)
  case 0
  then show ?case by (auto intro!: exI [of _ "[]"])
next
  case (Suc n)
  obtain d d' where d: "DeploymentsGet e (calls w) ns nm = Inr d" "mutate d = Inr d'"
    using fetch mutate_nonempty by blast
  let ?new = "[CallDeploymentsGet ns nm, CallDeploymentsUpdate ns d']"
  let ?w1 = "w\<lparr>calls := calls w @ ?new\<rparr>"
  obtain err where err: "DeploymentsUpdate e (calls w @ [CallDeploymentsGet ns nm]) ns d' = Inl err"
      "IsConflict err"
    using reject by blast
  have step: "RetryOnConflict (Suc n) (update_attempt e ns nm) lastErr w
      = RetryOnConflict n (update_attempt e ns nm) (Some err) ?w1"
    using err by (simp add: update_attempt_fetched [OF d])
  have "\<exists>err' cs. RetryOnConflict n (update_attempt e ns nm) (Some err) ?w1
                 = (Inr (Some err'), ?w1\<lparr>calls := calls ?w1 @ cs\<rparr>)
              \<and> IsConflict err' \<and> cycles ns nm cs = Some n"
    by (rule Suc.IH) (simp add: err)
  then obtain err' cs where cs: "RetryOnConflict n (update_attempt e ns nm) (Some err) ?w1
                 = (Inr (Some err'), ?w1\<lparr>calls := calls ?w1 @ cs\<rparr>)"
      "IsConflict err'" "cycles ns nm cs = Some n"
    by blast
  show ?case
    unfolding step
    by (intro exI [of _ err'] exI [of _ "?new @ cs"]) (simp add: cs del: RetryOnConflict.simps)
qed

lemma demo_params:
  "PathParameter demo_request ''namespace-name'' = ''demo''"
  "PathParameter demo_request ''deployment-name'' = ''nginx112''"
  by (simp_all add: PathParameter_def demo_request_def)

lemma stored_containers: "Spec_Template_Containers stored_deployment \<noteq> []"
  by (simp add: stored_deployment_def template_def)

text \<open>
  Claim C1. Let \<open>k\<close> be below the retry budget. If every fetch of the deployment
  succeeds (with a deployment that has a container), the store rejects the first \<open>k\<close>
  update submissions of this request with a version conflict and accepts the next
  one, then the update operation answers "Updated deployment..." and the calls it
  made are exactly \<open>k + 1\<close> cycles of a get followed by an update.
\<close>

theorem UpdateDeployment_converges:
  assumes budget: "k < Steps e"
    and fetch: "\<And>h. \<exists>d. DeploymentsGet e h (PathParameter req ''namespace-name'')
                         (PathParameter req ''deployment-name'') = Inr d
                       \<and> Spec_Template_Containers d \<noteq> []"
    and reject: "\<And>h d. updates_in h < updates_in (calls w) + k
                   \<Longrightarrow> \<exists>err. DeploymentsUpdate e h (PathParameter req ''namespace-name'') d = Inl err
                             \<and> IsConflict err"
    and accept: "\<And>h d. updates_in h = updates_in (calls w) + k
                   \<Longrightarrow> \<exists>r. DeploymentsUpdate e h (PathParameter req ''namespace-name'') d = Inr r"
  shows "\<exists>cs. UpdateDeployment e req w
                = (Returned \<lparr>StatusCode = Some 200, ResponseBody = ''Updated deployment...''\<rparr>,
                   w\<lparr>calls := calls w @ cs\<rparr>)
             \<and> cycles (PathParameter req ''namespace-name'')
                  (PathParameter req ''deployment-name'') cs = Some (k + 1)"
proof -
  let ?ns = "PathParameter req ''namespace-name''"
  let ?nm = "PathParameter req ''deployment-name''"
  obtain m where m: "Steps e = Suc (k + m)"
    using budget by (metis less_iff_Suc_add add_Suc_right)
  obtain cs where cs: "RetryOnConflict (Suc (k + m)) (update_attempt e ?ns ?nm) None w
                 = (Inr None, w\<lparr>calls := calls w @ cs\<rparr>)" "cycles ?ns ?nm cs = Some (Suc k)"
    using retry_converges [of e ?ns ?nm w k m None, OF fetch reject accept] by blast
  show ?thesis
    by (intro exI [of _ cs])
       (simp add: UpdateDeployment_def m cs WriteString_def WriteHeader_def NewResponse_def
          del: RetryOnConflict.simps)
qed

theorem UpdateDeployment_converges_witness:
  "2 < Steps (sim_store (\<lambda>u. u < 2)) \<and>
   (\<exists>cs. UpdateDeployment (sim_store (\<lambda>u. u < 2)) demo_request initial_world
           = (Returned \<lparr>StatusCode = Some 200, ResponseBody = ''Updated deployment...''\<rparr>,
              initial_world\<lparr>calls := calls initial_world @ cs\<rparr>)
        \<and> cycles ''demo'' ''nginx112'' cs = Some 3)"
proof -
  let ?e = "sim_store (\<lambda>u. u < 2)"
  have budget: "2 < Steps ?e" by (simp add: sim_store_def)
  have fetch: "\<And>h. \<exists>d. DeploymentsGet ?e h (PathParameter demo_request ''namespace-name'')
                         (PathParameter demo_request ''deployment-name'') = Inr d
                       \<and> Spec_Template_Containers d \<noteq> []"
    by (simp add: sim_store_def stored_containers)
  have reject: "\<And>h d. updates_in h < updates_in (calls initial_world) + 2
                   \<Longrightarrow> \<exists>err. DeploymentsUpdate ?e h (PathParameter demo_request ''namespace-name'') d = Inl err
                             \<and> IsConflict err"
    by (simp add: sim_store_def initial_world_def updates_in_def conflict_error_def)
  have accept: "\<And>h d. updates_in h = updates_in (calls initial_world) + 2
                   \<Longrightarrow> \<exists>r. DeploymentsUpdate ?e h (PathParameter demo_request ''namespace-name'') d = Inr r"
    by (simp add: sim_store_def initial_world_def updates_in_def)
  show ?thesis
    using UpdateDeployment_converges [of 2 ?e demo_request initial_world, OF budget fetch reject accept]
      budget
    by (simp add: demo_params)
qed

text \<open>
  Claim C2. With a retry budget of at least one attempt: if every fetch succeeds and
  the store rejects every update submission with a version conflict, the update
  operation makes exactly \<open>Steps\<close> cycles of a get followed by an update and then
  panics with "Update failed: " followed by the text of a conflict error.
\<close>

theorem UpdateDeployment_exhausts:
  assumes budget: "0 < Steps e"
    and fetch: "\<And>h. \<exists>d. DeploymentsGet e h (PathParameter req ''namespace-name'')
                         (PathParameter req ''deployment-name'') = Inr d
                       \<and> Spec_Template_Containers d \<noteq> []"
    and reject: "\<And>h d. \<exists>err. DeploymentsUpdate e h (PathParameter req ''namespace-name'') d = Inl err
                             \<and> IsConflict err"
  shows "\<exists>err cs. UpdateDeployment e req w
                = (Panicked (ErrorPanic (''Update failed: '' @ Error err)),
                   w\<lparr>calls := calls w @ cs\<rparr>)
             \<and> IsConflict err
             \<and> cycles (PathParameter req ''namespace-name'')
                  (PathParameter req ''deployment-name'') cs = Some (Steps e)"
proof -
  let ?ns = "PathParameter req ''namespace-name''"
  let ?nm = "PathParameter req ''deployment-name''"
  obtain err cs where cs: "RetryOnConflict (Steps e) (update_attempt e ?ns ?nm) None w
                 = (Inr (Some err), w\<lparr>calls := calls w @ cs\<rparr>)"
       "IsConflict err" "cycles ?ns ?nm cs = Some (Steps e)"
    using retry_exhausts [of e ?ns ?nm "Steps e" None w, OF fetch reject] budget by blast
  show ?thesis
    by (intro exI [of _ err] exI [of _ cs]) (simp add: UpdateDeployment_def cs)
qed

theorem UpdateDeployment_exhausts_witness:
  "0 < Steps (sim_store (\<lambda>u. True)) \<and>
   (\<exists>err cs. UpdateDeployment (sim_store (\<lambda>u. True)) demo_request initial_world
           = (Panicked (ErrorPanic (''Update failed: '' @ Error err)),
              initial_world\<lparr>calls := calls initial_world @ cs\<rparr>)
        \<and> IsConflict err
        \<and> cycles ''demo'' ''nginx112'' cs = Some 5)"
proof -
  let ?e = "sim_store (\<lambda>u. True)"
  have budget: "0 < Steps ?e" by (simp add: sim_store_def)
  have steps: "Steps ?e = 5" by (simp add: sim_store_def)
  have fetch: "\<And>h. \<exists>d. DeploymentsGet ?e h (PathParameter demo_request ''namespace-name'')
                         (PathParameter demo_request ''deployment-name'') = Inr d
                       \<and> Spec_Template_Containers d \<noteq> []"
    by (simp add: sim_store_def stored_containers)
  have reject: "\<And>h d. \<exists>err. DeploymentsUpdate ?e h (PathParameter demo_request ''namespace-name'') d = Inl err
                             \<and> IsConflict err"
    by (simp add: sim_store_def conflict_error_def)
  show ?thesis
    using UpdateDeployment_exhausts [of ?e demo_request initial_world, OF budget fetch reject]
      budget
    by (simp add: demo_params steps)
qed

subsection \<open>The shared template and the call record\<close>

lemma CreateDeploymentStruct_template:
  "CreateDeploymentStruct = template ''demo-deployment'' ''demo'' [] ''nginx:1.12''"
  by (simp add: CreateDeploymentStruct_def template_def int32Ptr_def)

lemma fill_template_template:
  "fill_template deploy (template n l ns i) =
     (None, template (RemoveNonAlphanumericChars (Image deploy))
              (RemoveNonAlphanumericChars (Image deploy)) (Namespace deploy) (Image deploy))"
  by (simp add: fill_template_def template_def Let_def)

text \<open>The create handler on a world whose template has the shape of the start-up one.\<close>

lemma CreateDeployment_on_template:
  assumes "deployment w = template n l ns i" and "fst (ReadEntity e req) = Some deploy"
  shows "CreateDeployment e req w =
     (case DeploymentsCreate e (calls w @ [CallNamespacesCreate (Namespace deploy)])
             (Namespace deploy)
             (template (RemoveNonAlphanumericChars (Image deploy))
                (RemoveNonAlphanumericChars (Image deploy)) (Namespace deploy) (Image deploy)) of
        Inl err \<Rightarrow> Panicked (ErrorPanic (Error err))
      | Inr result \<Rightarrow>
          Returned \<lparr>StatusCode = Some 200,
                    ResponseBody = ''Created deployment '' @ ObjectMeta_Name result\<rparr>,
      w\<lparr>deployment := template (RemoveNonAlphanumericChars (Image deploy))
                (RemoveNonAlphanumericChars (Image deploy)) (Namespace deploy) (Image deploy),
        calls := calls w @
          [CallNamespacesCreate (Namespace deploy),
           CallDeploymentsCreate (Namespace deploy)
             (template (RemoveNonAlphanumericChars (Image deploy))
                (RemoveNonAlphanumericChars (Image deploy)) (Namespace deploy) (Image deploy))]\<rparr>)"
  using assms
  by (simp add: CreateDeployment_def fill_template_template CreateNamespace_def record_call_def
      WriteString_def WriteHeader_def NewResponse_def split: sum.splits)

lemma RetryOnConflict_invariant:
  assumes step: "\<And>s. I s \<Longrightarrow> I (snd (fn s))"
  shows "I s \<Longrightarrow> I (snd (RetryOnConflict n fn lastErr s))"
proof (induction n arbitrary: lastErr s)
  case 0
  then show ?case by simp
next
  case (Suc n)
  obtain r s' where r: "fn s = (r, s')" by (cases "fn s")
  with step [OF Suc.prems] have "I s'" by simp
  with Suc.IH r show ?case
    by (auto split: sum.splits option.splits)
qed

lemma update_attempt_deployment:
  "deployment (snd (update_attempt e ns nm w)) = deployment w"
  by (simp add: update_attempt_def record_call_def Let_def split: sum.splits)

lemma UpdateDeployment_snd:
  "snd (UpdateDeployment e req w) =
     snd (RetryOnConflict (Steps e)
            (update_attempt e (PathParameter req ''namespace-name'')
               (PathParameter req ''deployment-name'')) None w)"
  by (simp add: UpdateDeployment_def Let_def split: prod.splits sum.splits option.splits)

lemma UpdateDeployment_deployment:
  "deployment (snd (UpdateDeployment e req w)) = deployment w"
  unfolding UpdateDeployment_snd
  by (rule RetryOnConflict_invariant [where I = "\<lambda>s. deployment s = deployment w"])
     (simp_all add: update_attempt_deployment)

lemma ListDeployment_snd:
  "snd (ListDeployment e req w) =
     w\<lparr>calls := calls w @ [CallDeploymentsList (PathParameter req ''namespace-name'')]\<rparr>"
  by (simp add: ListDeployment_def record_call_def Let_def split: sum.splits)

lemma DeleteDeployment_snd:
  "snd (DeleteDeployment e req w) =
     w\<lparr>calls := calls w @
         [CallDeploymentsDelete (PathParameter req ''namespace-name'')
            (PathParameter req ''deployment-name'')
            \<lparr>PropagationPolicy = Some DeletePropagationForeground\<rparr>]\<rparr>"
  by (simp add: DeleteDeployment_def record_call_def Let_def)

lemma CreateDeployment_template:
  assumes "deployment w = template n l ns i"
  shows "\<exists>n l ns i. deployment (snd (CreateDeployment e req w)) = template n l ns i"
proof (cases "fst (ReadEntity e req)")
  case None
  with assms show ?thesis by (auto simp: CreateDeployment_def)
next
  case (Some deploy)
  show ?thesis
    by (simp add: CreateDeployment_on_template [OF assms Some]) blast
qed

lemma dispatch_template:
  assumes "deployment w = template n l ns i"
  shows "\<exists>n l ns i. deployment (snd (dispatch e r w)) = template n l ns i"
proof (cases r)
  case (Pair rt req)
  show ?thesis
  proof (cases rt)
    case POST_deployment
    with Pair CreateDeployment_template [OF assms] show ?thesis by simp
  qed (use Pair assms in \<open>auto simp: ListDeployment_snd DeleteDeployment_snd UpdateDeployment_deployment\<close>)
qed

lemma serve_snoc: "serve e (reqs @ [r]) = snd (dispatch e r (serve e reqs))"
  by (simp add: serve_def)

lemma serve_template: "\<exists>n l ns i. deployment (serve e reqs) = template n l ns i"
proof (induction reqs rule: rev_induct)
  case Nil
  show ?case
    by (simp add: serve_def initial_world_def CreateDeploymentStruct_template) blast
next
  case (snoc r reqs)
  then show ?case by (auto simp: serve_snoc intro: dispatch_template)
qed

text \<open>Every call the service ever makes is of one of these forms.\<close>

lemma update_attempt_calls:
  assumes "\<And>ns nm. P (CallDeploymentsGet ns nm)"
    and "\<And>ns d d'. mutate d = Inr d' \<Longrightarrow> P (CallDeploymentsUpdate ns d')"
    and "\<forall>c \<in> set (calls w). P c"
  shows "\<forall>c \<in> set (calls (snd (update_attempt e ns nm w))). P c"
  using assms
  by (auto simp: update_attempt_def record_call_def Let_def split: sum.splits)

lemma dispatch_calls:
  assumes creates: "\<And>ns img. P (CallDeploymentsCreate ns
                       (template (RemoveNonAlphanumericChars img) (RemoveNonAlphanumericChars img) ns img))"
    and updates: "\<And>ns d d'. mutate d = Inr d' \<Longrightarrow> P (CallDeploymentsUpdate ns d')"
    and others: "\<And>ns. P (CallNamespacesCreate ns)" "\<And>ns nm. P (CallDeploymentsGet ns nm)"
      "\<And>ns. P (CallDeploymentsList ns)" "\<And>ns nm opts. P (CallDeploymentsDelete ns nm opts)"
    and tmpl: "deployment w = template n l ns i"
    and inv: "\<forall>c \<in> set (calls w). P c"
  shows "\<forall>c \<in> set (calls (snd (dispatch e r w))). P c"
proof (cases r)
  case (Pair rt req)
  show ?thesis
  proof (cases rt)
    case GET_namespace
    with Pair inv others show ?thesis by (simp add: ListDeployment_snd)
  next
    case POST_deployment
    show ?thesis
    proof (cases "fst (ReadEntity e req)")
      case None
      with Pair POST_deployment inv show ?thesis by (simp add: CreateDeployment_def)
    next
      case (Some deploy)
      with Pair POST_deployment inv others creates show ?thesis
        by (simp add: CreateDeployment_on_template [OF tmpl Some])
    qed
  next
    case PATCH_deployment
    have "\<forall>c \<in> set (calls (snd (UpdateDeployment e req w))). P c"
      unfolding UpdateDeployment_snd
      by (rule RetryOnConflict_invariant [where I = "\<lambda>s. \<forall>c \<in> set (calls s). P c"])
         (use inv others updates in \<open>auto intro: update_attempt_calls [rule_format]\<close>)
    with Pair PATCH_deployment show ?thesis by simp
  next
    case DELETE_deployment
    with Pair inv others show ?thesis by (simp add: DeleteDeployment_snd)
  qed
qed

lemma serve_calls:
  assumes creates: "\<And>ns img. P (CallDeploymentsCreate ns
                       (template (RemoveNonAlphanumericChars img) (RemoveNonAlphanumericChars img) ns img))"
    and updates: "\<And>ns d d'. mutate d = Inr d' \<Longrightarrow> P (CallDeploymentsUpdate ns d')"
    and others: "\<And>ns. P (CallNamespacesCreate ns)" "\<And>ns nm. P (CallDeploymentsGet ns nm)"
      "\<And>ns. P (CallDeploymentsList ns)" "\<And>ns nm opts. P (CallDeploymentsDelete ns nm opts)"
  shows "\<forall>c \<in> set (calls (serve e reqs)). P c"
proof (induction reqs rule: rev_induct)
  case Nil
  show ?case by (simp add: serve_def initial_world_def)
next
  case (snoc r reqs)
  obtain n l ns i where "deployment (serve e reqs) = template n l ns i"
    using serve_template by blast
  from dispatch_calls [of P, OF creates updates others this snoc.IH]
  show ?case by (simp add: serve_snoc)
qed

lemma strip_nginx: "RemoveNonAlphanumericChars ''nginx:1.12'' = ''nginx112''"
  by (simp add: RemoveNonAlphanumericChars_filter isAlnum_def)


lemma RetryOnConflict_first_success:
  "fn s = (Inr None, s') \<Longrightarrow> 0 < n \<Longrightarrow> RetryOnConflict n fn lastErr s = (Inr None, s')"
  by (cases n) simp_all

lemma serve_one_update:
  "calls (serve (sim_store (\<lambda>u. False)) [(PATCH_deployment, demo_request\<lparr>Body := ''{}''\<rparr>)]) =
     [CallDeploymentsGet ''demo'' ''nginx112'', CallDeploymentsUpdate ''demo'' updated_deployment]"
proof -
  let ?e = "sim_store (\<lambda>u. False)"
  have steps: "0 < Steps ?e" by (simp add: sim_store_def)
  have get: "DeploymentsGet ?e (calls initial_world) ''demo'' ''nginx112'' = Inr stored_deployment"
    by (simp add: sim_store_def)
  have mut: "mutate stored_deployment = Inr updated_deployment"
    by (simp add: mutate_def stored_deployment_def template_def updated_deployment_def
        Let_def int32Ptr_def)
  have upd: "\<And>h ns d. DeploymentsUpdate ?e h ns d = Inr d"
    by (simp add: sim_store_def)
  have attempt: "update_attempt ?e ''demo'' ''nginx112'' initial_world =
      (Inr None, initial_world\<lparr>calls := calls initial_world @
         [CallDeploymentsGet ''demo'' ''nginx112'', CallDeploymentsUpdate ''demo'' updated_deployment]\<rparr>)"
    by (simp add: update_attempt_fetched [OF get mut] upd)
  show ?thesis
    by (simp add: serve_def UpdateDeployment_snd PathParameter_def demo_request_def
        RetryOnConflict_first_success
          [where fn = "update_attempt ?e ''demo'' ''nginx112''" and s = initial_world,
           OF attempt steps])
       (simp add: initial_world_def)
qed

subsection \<open>Create\<close>





text \<open>
  Claim C6. When the store answers the namespace-create call of a create request with
  an "already exists" error, the handler still issues the deployment-create call next,
  and the request answers "Created deployment ..." whenever that call succeeds.
\<close>

theorem CreateDeployment_namespace_exists:
  assumes "fst (ReadEntity e req) = Some deploy"
    and "NamespacesCreate e (calls (serve e reqs)) (Namespace deploy) = Some err"
    and "IsAlreadyExists err"
  shows "\<exists>d. calls (snd (CreateDeployment e req (serve e reqs)))
               = calls (serve e reqs)
                 @ [CallNamespacesCreate (Namespace deploy), CallDeploymentsCreate (Namespace deploy) d]
           \<and> (\<forall>result.
                 DeploymentsCreate e (calls (serve e reqs) @ [CallNamespacesCreate (Namespace deploy)])
                   (Namespace deploy) d = Inr result
                 \<longrightarrow> fst (CreateDeployment e req (serve e reqs))
                       = Returned \<lparr>StatusCode = Some 200,
                                   ResponseBody = ''Created deployment '' @ ObjectMeta_Name result\<rparr>)"
proof -
  obtain n l ns i where t: "deployment (serve e reqs) = template n l ns i"
    using serve_template by blast
  show ?thesis
    by (simp add: CreateDeployment_on_template [OF t assms(1)])
qed

theorem CreateDeployment_namespace_exists_witness:
  "NamespacesCreate ((sim_store (\<lambda>u. False))\<lparr>NamespacesCreate := \<lambda>h ns. Some already_exists_error\<rparr>)
       (calls (serve ((sim_store (\<lambda>u. False))\<lparr>NamespacesCreate := \<lambda>h ns. Some already_exists_error\<rparr>) []))
       ''demo'' = Some already_exists_error
   \<and> IsAlreadyExists already_exists_error
   \<and> (\<exists>d. calls (snd (CreateDeployment
                ((sim_store (\<lambda>u. False))\<lparr>NamespacesCreate := \<lambda>h ns. Some already_exists_error\<rparr>)
                demo_request
                (serve ((sim_store (\<lambda>u. False))\<lparr>NamespacesCreate := \<lambda>h ns. Some already_exists_error\<rparr>) [])))
            = [CallNamespacesCreate ''demo'', CallDeploymentsCreate ''demo'' d]
          \<and> fst (CreateDeployment
                ((sim_store (\<lambda>u. False))\<lparr>NamespacesCreate := \<lambda>h ns. Some already_exists_error\<rparr>)
                demo_request
                (serve ((sim_store (\<lambda>u. False))\<lparr>NamespacesCreate := \<lambda>h ns. Some already_exists_error\<rparr>) []))
            = Returned \<lparr>StatusCode = Some 200,
                        ResponseBody = ''Created deployment '' @ ObjectMeta_Name d\<rparr>)"
proof -
  let ?e = "(sim_store (\<lambda>u. False))\<lparr>NamespacesCreate := \<lambda>h ns. Some already_exists_error\<rparr>"
  have r: "fst (ReadEntity ?e demo_request) = Some \<lparr>Image = ''nginx:1.12'', Namespace = ''demo''\<rparr>"
    by (simp add: sim_store_def)
  have ns: "NamespacesCreate ?e (calls (serve ?e []))
              (Namespace \<lparr>Image = ''nginx:1.12'', Namespace = ''demo''\<rparr>) = Some already_exists_error"
    by simp
  have ae: "IsAlreadyExists already_exists_error"
    by (simp add: already_exists_error_def)
  have calls0: "calls (serve ?e []) = []"
    by (simp add: serve_def initial_world_def)
  have create: "\<And>h ns d. DeploymentsCreate (sim_store (\<lambda>u. False)) h ns d = Inr d"
    by (simp add: sim_store_def)
  from CreateDeployment_namespace_exists [OF r ns ae] ae
  show ?thesis
    by (simp add: calls0 create)
qed

text \<open>
  Claim C9, amended. When the entity reader returns an error, the create handler goes
  on with the fields the reader has left in \<^verbatim>\<open>deploy\<close> (the zero values where it wrote
  none): it calls namespace-create and deployment-create with that namespace, the
  name derived from that image and that image, all of them empty when the reader wrote
  nothing, and its outcome is that of the deployment-create call (a panic with the
  store's error, or "Created deployment ..."), never an error response of its own.
\<close>

theorem CreateDeployment_ignores_parse_error:
  assumes "ReadEntity e req = (Some deploy, Some parseErr)"
  shows "\<exists>d c. calls (snd (CreateDeployment e req (serve e reqs)))
               = calls (serve e reqs)
                 @ [CallNamespacesCreate (Namespace deploy),
                    CallDeploymentsCreate (Namespace deploy) d]
           \<and> ObjectMeta_Name d = strip_non_alphanumeric (Image deploy)
           \<and> ObjectMeta_Namespace d = Namespace deploy
           \<and> Spec_Template_Containers d = [c] \<and> ContainerImage c = Image deploy
           \<and> (Image deploy = [] \<longrightarrow> ObjectMeta_Name d = [])
           \<and> fst (CreateDeployment e req (serve e reqs))
               = (case DeploymentsCreate e
                         (calls (serve e reqs) @ [CallNamespacesCreate (Namespace deploy)])
                         (Namespace deploy) d of
                    Inl err \<Rightarrow> Panicked (ErrorPanic (Error err))
                  | Inr result \<Rightarrow>
                      Returned \<lparr>StatusCode = Some 200,
                                ResponseBody = ''Created deployment '' @ ObjectMeta_Name result\<rparr>)"
proof -
  obtain n l ns i where t: "deployment (serve e reqs) = template n l ns i"
    using serve_template by blast
  have r: "fst (ReadEntity e req) = Some deploy"
    using assms by simp
  show ?thesis
    by (simp add: CreateDeployment_on_template [OF t r] RemoveNonAlphanumericChars_filter
        strip_non_alphanumeric_def)
       (simp add: template_def)
qed

theorem CreateDeployment_ignores_parse_error_witness:
  "\<exists>d c. calls (snd (CreateDeployment
               (strict_store (Some \<lparr>Image = [], Namespace = []\<rparr>, Some ''unexpected EOF''))
               syntax_error_request initial_world))
            = [CallNamespacesCreate [], CallDeploymentsCreate [] d]
        \<and> ObjectMeta_Name d = []
        \<and> ObjectMeta_Namespace d = []
        \<and> Spec_Template_Containers d = [c] \<and> ContainerImage c = []
        \<and> fst (CreateDeployment
               (strict_store (Some \<lparr>Image = [], Namespace = []\<rparr>, Some ''unexpected EOF''))
               syntax_error_request initial_world)
            = Panicked (ErrorPanic ''an empty namespace may not be set during creation'')"
proof -
  let ?e = "strict_store (Some \<lparr>Image = [], Namespace = []\<rparr>, Some ''unexpected EOF'')"
  have r: "ReadEntity ?e syntax_error_request
             = (Some \<lparr>Image = [], Namespace = []\<rparr>, Some ''unexpected EOF'')"
    by (simp add: strict_store_def)
  have s0: "serve ?e [] = initial_world" by (simp add: serve_def)
  have c0: "calls initial_world = []" by (simp add: initial_world_def)
  have create: "\<And>h d. DeploymentsCreate ?e h [] d = Inl empty_namespace_error"
    by (simp add: strict_store_def)
  from CreateDeployment_ignores_parse_error [OF r, of "[]"]
  show ?thesis
    by (auto simp: s0 c0 create strip_non_alphanumeric_def empty_namespace_error_def)
qed

text \<open>
  The fields are not always the zero values: a reader that has stored the image before
  it reports the type error of the namespace leaves "nginx:1.12" in \<^verbatim>\<open>deploy\<close>, and
  the handler submits a deployment named "nginx112" with that image.
\<close>

theorem CreateDeployment_parse_error_keeps_fields:
  "snd (ReadEntity
          (strict_store (Some \<lparr>Image = ''nginx:1.12'', Namespace = []\<rparr>,
                         Some ''json: cannot unmarshal number into Go value of type string''))
          type_error_request)
     = Some ''json: cannot unmarshal number into Go value of type string''
   \<and> calls (snd (CreateDeployment
          (strict_store (Some \<lparr>Image = ''nginx:1.12'', Namespace = []\<rparr>,
                         Some ''json: cannot unmarshal number into Go value of type string''))
          type_error_request initial_world))
     = [CallNamespacesCreate [],
        CallDeploymentsCreate []
          (template ''nginx112'' ''nginx112'' [] ''nginx:1.12'')]
   \<and> ObjectMeta_Name (template ''nginx112'' ''nginx112'' [] ''nginx:1.12'') = ''nginx112''
   \<and> ObjectMeta_Name (template ''nginx112'' ''nginx112'' [] ''nginx:1.12'') \<noteq> []
   \<and> map ContainerImage (Spec_Template_Containers (template ''nginx112'' ''nginx112'' [] ''nginx:1.12''))
     = [''nginx:1.12'']"
proof -
  let ?e = "strict_store (Some \<lparr>Image = ''nginx:1.12'', Namespace = []\<rparr>,
                         Some ''json: cannot unmarshal number into Go value of type string'')"
  have t: "deployment initial_world = template ''demo-deployment'' ''demo'' [] ''nginx:1.12''"
    by (simp add: initial_world_def CreateDeploymentStruct_template)
  have r: "fst (ReadEntity ?e type_error_request)
             = Some \<lparr>Image = ''nginx:1.12'', Namespace = []\<rparr>"
    by (simp add: strict_store_def)
  show ?thesis
    by (simp add: CreateDeployment_on_template [OF t r] strip_nginx)
       (simp add: strict_store_def initial_world_def template_def)
qed

subsection \<open>Update\<close>

text \<open>
  Claim C7. The update handler does not look at the request body, and every deployment
  that the service ever submits in an update call has replica count 1 and
  "nginx:1.13" as the image of its first container.
\<close>

theorem UpdateDeployment_fixed_mutation:
  "UpdateDeployment e (req\<lparr>Body := b\<rparr>) w = UpdateDeployment e req w
   \<and> (\<forall>ns d. CallDeploymentsUpdate ns d \<in> set (calls (serve e reqs))
          \<longrightarrow> Spec_Replicas d = Some 1
              \<and> (\<exists>c cs. Spec_Template_Containers d = c # cs \<and> ContainerImage c = ''nginx:1.13''))"
proof
  show "UpdateDeployment e (req\<lparr>Body := b\<rparr>) w = UpdateDeployment e req w"
    by (simp add: UpdateDeployment_def PathParameter_def)
next
  have "\<forall>c \<in> set (calls (serve e reqs)).
          (\<forall>ns d. c = CallDeploymentsUpdate ns d
             \<longrightarrow> Spec_Replicas d = Some 1
                \<and> (\<exists>c cs. Spec_Template_Containers d = c # cs \<and> ContainerImage c = ''nginx:1.13''))"
    by (rule serve_calls)
       (auto simp: mutate_def Let_def int32Ptr_def split: list.splits)
  then show "\<forall>ns d. CallDeploymentsUpdate ns d \<in> set (calls (serve e reqs))
          \<longrightarrow> Spec_Replicas d = Some 1
              \<and> (\<exists>c cs. Spec_Template_Containers d = c # cs \<and> ContainerImage c = ''nginx:1.13'')"
    by blast
qed

theorem UpdateDeployment_fixed_mutation_witness:
  "CallDeploymentsUpdate ''demo'' updated_deployment
     \<in> set (calls (serve (sim_store (\<lambda>u. False)) [(PATCH_deployment, demo_request\<lparr>Body := ''{}''\<rparr>)]))
   \<and> Spec_Replicas updated_deployment = Some 1
   \<and> (\<exists>c cs. Spec_Template_Containers updated_deployment = c # cs \<and> ContainerImage c = ''nginx:1.13'')"
  using UpdateDeployment_fixed_mutation
    [where e = "sim_store (\<lambda>u. False)" and req = demo_request and b = "''{}''"
       and w = initial_world and reqs = "[(PATCH_deployment, demo_request\<lparr>Body := ''{}''\<rparr>)]"]
  by (simp add: serve_one_update)

subsection \<open>Delete\<close>

lemma DeleteDeployment_success:
  "DeploymentsDelete e (calls w) (PathParameter req ''namespace-name'')
     (PathParameter req ''deployment-name'') \<lparr>PropagationPolicy = Some DeletePropagationForeground\<rparr> = None
   \<Longrightarrow> fst (DeleteDeployment e req w)
        = Returned \<lparr>StatusCode = Some 200, ResponseBody = ''Deleted deployment.''\<rparr>"
  by (simp add: DeleteDeployment_def WriteString_def WriteHeader_def NewResponse_def)

lemma DeleteDeployment_failure:
  "DeploymentsDelete e (calls w) (PathParameter req ''namespace-name'')
     (PathParameter req ''deployment-name'') \<lparr>PropagationPolicy = Some DeletePropagationForeground\<rparr> = Some err
   \<Longrightarrow> fst (DeleteDeployment e req w)
        = Returned \<lparr>StatusCode = Some 500, ResponseBody = Error err @ ''Deleted deployment.''\<rparr>"
  by (simp add: DeleteDeployment_def WriteString_def WriteError_def WriteHeader_def NewResponse_def)

text \<open>
  Claim C8, at a delete request that the store answers with "not found": the call is
  made with foreground propagation and the process does not panic, but the response
  has status 500 and a body made of the error's text followed by the text of
  the success case.
\<close>

theorem DeleteDeployment_error_then_success_text:
  "DeleteDeployment
     ((sim_store (\<lambda>u. False))\<lparr>DeploymentsDelete := \<lambda>h ns nm opts. Some not_found_error\<rparr>)
     demo_request initial_world
   = (Returned \<lparr>StatusCode = Some 500,
                ResponseBody = ''deployments.apps nginx112 not found'' @ ''Deleted deployment.''\<rparr>,
      initial_world\<lparr>calls :=
        [CallDeploymentsDelete ''demo'' ''nginx112''
           \<lparr>PropagationPolicy = Some DeletePropagationForeground\<rparr>]\<rparr>)"
  by (simp add: DeleteDeployment_def sim_store_def not_found_error_def record_call_def
      WriteError_def WriteString_def WriteHeader_def NewResponse_def PathParameter_def
      demo_request_def initial_world_def)

subsection \<open>List\<close>

lemma write_items_all:
  "write_items items buffer =
     (if \<forall>d \<in> set items. Spec_Replicas d \<noteq> None
      then Inr (buffer @ concat (map list_line items)) else Inl NilDereference)"
  by (induction items arbitrary: buffer) (auto simp: list_line_def split: option.splits)

text \<open>
  Claim C10. When the list call succeeds, the list handler answers with one line
  "name replicas" per item, in the store's order, if every item has its replica count
  set; if some item has none, the handler panics on the nil pointer.
\<close>

theorem ListDeployment_total_iff_replicas_set:
  assumes "DeploymentsList e (calls w) (PathParameter req ''namespace-name'') = Inr items"
  shows "((\<forall>d \<in> set items. Spec_Replicas d \<noteq> None)
            \<longrightarrow> fst (ListDeployment e req w)
                  = Returned \<lparr>StatusCode = Some 200, ResponseBody = concat (map list_line items)\<rparr>)
       \<and> ((\<exists>d \<in> set items. Spec_Replicas d = None)
            \<longrightarrow> fst (ListDeployment e req w) = Panicked NilDereference)"
  using assms
  by (auto simp: ListDeployment_def write_items_all WriteString_def WriteHeader_def NewResponse_def)

theorem ListDeployment_total_iff_replicas_set_witness:
  "fst (ListDeployment (sim_store (\<lambda>u. False)) demo_request initial_world)
     = Returned \<lparr>StatusCode = Some 200, ResponseBody = ''nginx112 2'' @ [CHR 0x0A]\<rparr>
   \<and> fst (ListDeployment
        ((sim_store (\<lambda>u. False))
           \<lparr>DeploymentsList := \<lambda>h ns. Inr [stored_deployment, stored_deployment\<lparr>Spec_Replicas := None\<rparr>]\<rparr>)
        demo_request initial_world)
     = Panicked NilDereference"
proof -
  have l1: "DeploymentsList (sim_store (\<lambda>u. False)) (calls initial_world)
             (PathParameter demo_request ''namespace-name'') = Inr [stored_deployment]"
    by (simp add: sim_store_def)
  have l2: "DeploymentsList ((sim_store (\<lambda>u. False))
           \<lparr>DeploymentsList := \<lambda>h ns. Inr [stored_deployment, stored_deployment\<lparr>Spec_Replicas := None\<rparr>]\<rparr>)
            (calls initial_world)
             (PathParameter demo_request ''namespace-name'')
            = Inr [stored_deployment, stored_deployment\<lparr>Spec_Replicas := None\<rparr>]"
    by simp
  have line: "list_line stored_deployment = ''nginx112 2'' @ [CHR 0x0A]"
    by (simp add: list_line_def stored_deployment_def template_def FormatInt_def
        FormatUint.simps digit_char_def)
  have set: "Spec_Replicas stored_deployment \<noteq> None"
    by (simp add: stored_deployment_def template_def)
  from ListDeployment_total_iff_replicas_set [OF l1] ListDeployment_total_iff_replicas_set [OF l2]
  show ?thesis
    by (simp add: line set)
qed

end
